theory Spec2Isabelle
  imports Main "HOL-Library.Sublist"
begin

section \<open>Go strings as byte lists\<close>

text \<open>
  A Go string is a sequence of bytes, and so is a HOL \<open>string\<close>. The functions of Go's
  \<open>strings\<close> package that the agent calls are modelled on bytes. Where Go works on
  UTF-8 runes the model names the byte sequences that matter:
  \<^item> \<open>strings.TrimSpace\<close> removes the runes of \<open>unicode.IsSpace\<close>. Their UTF-8 encodings are
    listed in \<open>space_runes\<close>; an encoding at the start (at the end) of the text is exactly a
    leading (trailing) white space rune.
  \<^item> \<open>strings.ToLower\<close> lowers the ASCII letters and maps the two runes outside ASCII whose
    lower case is an ASCII letter (U+212A to \<open>k\<close>, U+0130 to \<open>i\<close>). Every other byte outside
    ASCII is kept; Go may replace it by other bytes outside ASCII. The program only compares
    the lowered text with ASCII words or searches ASCII words in it, and these tests cannot
    tell the two apart.
\<close>

definition nl :: string where
  "nl = [CHR 0x0A]"

fun Contains :: "string \<Rightarrow> string \<Rightarrow> bool" where
  "Contains [] substr = (substr = [])"
| "Contains (c # s) substr = (prefix substr (c # s) \<or> Contains s substr)"

definition HasPrefix :: "string \<Rightarrow> string \<Rightarrow> bool" where
  "HasPrefix s p = prefix p s"

definition HasSuffix :: "string \<Rightarrow> string \<Rightarrow> bool" where
  "HasSuffix s p = suffix p s"

definition lower_byte :: "char \<Rightarrow> char" where
  "lower_byte c =
     (if 65 \<le> (of_char c :: nat) \<and> (of_char c :: nat) \<le> 90
      then char_of (of_char c + 32 :: nat) else c)"

definition kelvin_sign :: string where
  "kelvin_sign = [CHR 0xE2, CHR 0x84, CHR 0xAA]"

definition dotted_I :: string where
  "dotted_I = [CHR 0xC4, CHR 0xB0]"

definition long_s :: string where
  "long_s = [CHR 0xC5, CHR 0xBF]"

fun ToLower :: "string \<Rightarrow> string" where
  "ToLower [] = []"
| "ToLower (c # s) =
     (if prefix kelvin_sign (c # s) then CHR ''k'' # ToLower (drop 2 s)
      else if prefix dotted_I (c # s) then CHR ''i'' # ToLower (drop 1 s)
      else lower_byte c # ToLower s)"

definition space_runes :: "string list" where
  "space_runes =
     [[CHR 0x09], [CHR 0x0A], [CHR 0x0B], [CHR 0x0C], [CHR 0x0D], [CHR 0x20],
      [CHR 0xC2, CHR 0x85], [CHR 0xC2, CHR 0xA0], [CHR 0xE1, CHR 0x9A, CHR 0x80],
      [CHR 0xE2, CHR 0x80, CHR 0x80], [CHR 0xE2, CHR 0x80, CHR 0x81],
      [CHR 0xE2, CHR 0x80, CHR 0x82], [CHR 0xE2, CHR 0x80, CHR 0x83],
      [CHR 0xE2, CHR 0x80, CHR 0x84], [CHR 0xE2, CHR 0x80, CHR 0x85],
      [CHR 0xE2, CHR 0x80, CHR 0x86], [CHR 0xE2, CHR 0x80, CHR 0x87],
      [CHR 0xE2, CHR 0x80, CHR 0x88], [CHR 0xE2, CHR 0x80, CHR 0x89],
      [CHR 0xE2, CHR 0x80, CHR 0x8A], [CHR 0xE2, CHR 0x80, CHR 0xA8],
      [CHR 0xE2, CHR 0x80, CHR 0xA9], [CHR 0xE2, CHR 0x80, CHR 0xAF],
      [CHR 0xE2, CHR 0x81, CHR 0x9F], [CHR 0xE3, CHR 0x80, CHR 0x80]]"

definition leading_space :: "string \<Rightarrow> nat" where
  \<comment> \<open>the length of the white space rune the text starts with, 0 when it starts with none\<close>
  "leading_space s = (case find (\<lambda>r. prefix r s) space_runes of None \<Rightarrow> 0 | Some r \<Rightarrow> length r)"

definition trailing_space :: "string \<Rightarrow> nat" where
  "trailing_space s = (case find (\<lambda>r. suffix r s) space_runes of None \<Rightarrow> 0 | Some r \<Rightarrow> length r)"

lemma leading_space_le: "leading_space s \<le> length s"
  by (auto simp: leading_space_def find_Some_iff prefix_length_le split: option.splits)

lemma trailing_space_le: "trailing_space s \<le> length s"
  by (auto simp: trailing_space_def find_Some_iff suffix_length_le split: option.splits)

function TrimLeft :: "string \<Rightarrow> string" where
  "TrimLeft s = (if leading_space s = 0 then s else TrimLeft (drop (leading_space s) s))"
  by pat_completeness auto
termination
proof (relation "measure length")
  fix s :: string
  assume "leading_space s \<noteq> 0"
  with leading_space_le [of s] show "(drop (leading_space s) s, s) \<in> measure length"
    by simp
qed simp

function TrimRight :: "string \<Rightarrow> string" where
  "TrimRight s =
     (if trailing_space s = 0 then s else TrimRight (take (length s - trailing_space s) s))"
  by pat_completeness auto
termination
proof (relation "measure length")
  fix s :: string
  assume "trailing_space s \<noteq> 0"
  with trailing_space_le [of s] show "(take (length s - trailing_space s) s, s) \<in> measure length"
    by simp
qed simp

definition TrimSpace :: "string \<Rightarrow> string" where
  "TrimSpace s = TrimRight (TrimLeft s)"

declare TrimLeft.simps [simp del] TrimRight.simps [simp del]

subsection \<open>The three rating patterns\<close>

text \<open>
  \<open>validateWithLLM\<close> compiles three regular expressions,
  \<^verbatim>\<open>(?i)SAFE\s+\[?([1-3])\]?\<close>, \<^verbatim>\<open>(?i)CAUTION\s+\[?([4-6])\]?\<close> and
  \<^verbatim>\<open>(?i)DANGEROUS\s+\[?([7-9]|10)\]?\<close>, and asks \<open>MatchString\<close> whether the assessment
  holds a match anywhere. All three have the shape tag, white space, an optional bracket
  and a score; the closing bracket is optional and last, so it never decides a match.
  Under \<open>(?i)\<close> a letter matches both its cases, and Go folds \<open>S\<close> also with U+017F and
  \<open>K\<close> with U+212A. \<open>\s\<close> is tab, line feed, form feed, carriage return and space.
  The white space is followed by a bracket or a digit, so \<open>\s+\<close> takes all of it.
\<close>

definition fold_eq :: "char \<Rightarrow> string \<Rightarrow> string option" where
  \<comment> \<open>one upper-case letter of a pattern against the start of the text: the rest, or None\<close>
  "fold_eq p s =
     (case s of
        [] \<Rightarrow> None
      | c # cs \<Rightarrow>
          if c = p \<or> c = lower_byte p then Some cs
          else if p = CHR ''S'' \<and> prefix long_s s then Some (drop 2 s)
          else if p = CHR ''K'' \<and> prefix kelvin_sign s then Some (drop 3 s)
          else None)"

fun fold_lit :: "string \<Rightarrow> string \<Rightarrow> string option" where
  "fold_lit [] s = Some s"
| "fold_lit (p # ps) s = (case fold_eq p s of None \<Rightarrow> None | Some r \<Rightarrow> fold_lit ps r)"

definition re_space :: "char \<Rightarrow> bool" where
  "re_space c = (c \<in> set [CHR 0x09, CHR 0x0A, CHR 0x0C, CHR 0x0D, CHR 0x20])"

definition one_of :: "string \<Rightarrow> string \<Rightarrow> bool" where
  \<comment> \<open>a character class at the start of the text\<close>
  "one_of cls s = (case s of [] \<Rightarrow> False | c # _ \<Rightarrow> c \<in> set cls)"

definition rating :: "string \<Rightarrow> (string \<Rightarrow> bool) \<Rightarrow> string \<Rightarrow> bool" where
  \<comment> \<open>a match of \<^verbatim>\<open>(?i)TAG\s+\[?(score)\]?\<close> that starts at the start of the text\<close>
  "rating tag score s =
     (case fold_lit tag s of
        None \<Rightarrow> False
      | Some r \<Rightarrow>
          one_of [CHR 0x09, CHR 0x0A, CHR 0x0C, CHR 0x0D, CHR 0x20] r \<and>
          (let t = dropWhile re_space r
           in score t \<or> (case t of [] \<Rightarrow> False | b # u \<Rightarrow> b = CHR ''['' \<and> score u)))"

fun MatchString :: "(string \<Rightarrow> bool) \<Rightarrow> string \<Rightarrow> bool" where
  \<comment> \<open>a match that starts anywhere in the text\<close>
  "MatchString re [] = re []"
| "MatchString re (c # s) = (re (c # s) \<or> MatchString re s)"

definition safeRegex :: "string \<Rightarrow> bool" where
  "safeRegex = MatchString (rating ''SAFE'' (one_of ''123''))"

definition cautionRegex :: "string \<Rightarrow> bool" where
  "cautionRegex = MatchString (rating ''CAUTION'' (one_of ''456''))"

definition dangerRegex :: "string \<Rightarrow> bool" where
  "dangerRegex = MatchString (rating ''DANGEROUS'' (\<lambda>t. one_of ''789'' t \<or> prefix ''10'' t))"

section \<open>The run state and the world outside the program\<close>

text \<open>
  The packages \<open>cmd/aiagent/nodes\<close> and \<open>pkg/nodes\<close> each declare \<open>State\<close>. The second
  declaration has every field of the first and adds the four task fields, so one record
  serves both; the validation node of \<open>cmd/aiagent/nodes\<close> never touches the added fields.
  \<open>NodeType\<close> is a Go string type.
\<close>

type_synonym NodeType = string

definition NodeTypeClassifier :: NodeType where "NodeTypeClassifier = ''classifier''"
definition NodeTypeBash :: NodeType where "NodeTypeBash = ''bash''"
definition NodeTypeValidation :: NodeType where "NodeTypeValidation = ''validation''"
definition NodeTypeFormatter :: NodeType where "NodeTypeFormatter = ''formatter''"
definition NodeTypeTerminal :: NodeType where "NodeTypeTerminal = ''terminal''"
definition NodeTypeContentCollection :: NodeType where "NodeTypeContentCollection = ''content_collection''"
definition NodeTypeAnalytics :: NodeType where "NodeTypeAnalytics = ''analytics''"
definition NodeTypeDirectResponse :: NodeType where "NodeTypeDirectResponse = ''direct_response''"
definition NodeTypeCodeAnalyzer :: NodeType where "NodeTypeCodeAnalyzer = ''code_analyzer''"

record FileContent =
  Path :: string
  Content :: string
  Size :: int
  IsDir :: bool

record TaskStatus =
  NodeType :: NodeType
  Goal :: string
  IsCompleted :: bool
  Result :: string

record State =
  Input :: string
  Command :: string
  NextNode :: NodeType
  FinalResult :: string
  RawOutput :: string
  Verbose :: bool
  WorkingDirectory :: string
  CurrentTask :: TaskStatus
  TaskHistory :: "TaskStatus list"
  GlobalGoal :: string
  IsGoalMet :: bool
  DirectoryContents :: "FileContent list"
  NeedsFileContent :: bool
  FilePatterns :: "string list"
  FileCountLimit :: int
  FileSizeLimit :: int
  AnalyticsQuestion :: string

text \<open>
  What the program does to the world is kept in a record: how many calls the model has
  answered, how many lines were read from standard input, the commands handed to
  \<open>bash -c\<close> and the texts written to standard output, each in order. What the world
  answers is an oracle: the reply to the k-th model call, the k-th line of standard input
  (\<open>ReadString\<close> returns what it has read when the input ends, and its error is dropped by
  the program) and the result of the k-th spawned command. Any run of the program,
  whatever the model and the operator do, is the run against one such oracle.
  An error is the text of Go's \<open>err.Error()\<close>.
\<close>

datatype exec_error =
  ExitError string int    \<comment> \<open>\<open>*exec.ExitError\<close>: its text and its exit code\<close>
| OtherError string string    \<comment> \<open>any other error: its text and the name of its Go type\<close>

record env =
  Generate :: "nat \<Rightarrow> string \<Rightarrow> string \<Rightarrow> string + string"
  ReadString :: "nat \<Rightarrow> string"
  CombinedOutput :: "nat \<Rightarrow> string \<Rightarrow> string \<times> exec_error option"

record world =
  llm_calls :: nat
  stdin_reads :: nat
  spawned :: "string list"
  stdout :: "string list"

definition Printf :: "world \<Rightarrow> string \<Rightarrow> world" where
  "Printf w s = w\<lparr>stdout := stdout w @ [s]\<rparr>"

definition llm_Generate :: "env \<Rightarrow> world \<Rightarrow> string \<Rightarrow> string \<Rightarrow> (string + string) \<times> world" where
  "llm_Generate e w prompt systemPrompt =
     (Generate e (llm_calls w) prompt systemPrompt, w\<lparr>llm_calls := Suc (llm_calls w)\<rparr>)"

definition reader_ReadString :: "env \<Rightarrow> world \<Rightarrow> string \<times> world" where
  "reader_ReadString e w = (ReadString e (stdin_reads w), w\<lparr>stdin_reads := Suc (stdin_reads w)\<rparr>)"

definition cmd_CombinedOutput :: "env \<Rightarrow> world \<Rightarrow> string \<Rightarrow> (string \<times> exec_error option) \<times> world" where
  "cmd_CombinedOutput e w command =
     (CombinedOutput e (length (spawned w)) command, w\<lparr>spawned := spawned w @ [command]\<rparr>)"

section \<open>The validation node of \<open>cmd/aiagent/nodes\<close>\<close>

record ValidationNode =
  node_Verbose :: bool
  ForceApproval :: bool
  node_WorkingDirectory :: string

definition dangerousPatterns :: "string list" where
  "dangerousPatterns =
     [''rm -rf'', ''rm -r'', ''rmdir'',
      ''chmod'', ''chown'',
      ''dd'',
      ''mkfs'',
      ''fdisk'', ''mkdisk'',
      ''sudo'', ''su '',
      '':(){:|:&};:'',
      ''shutdown'', ''reboot'', ''poweroff'',
      ''>'', ''>>'', ''2>'',
      ''mv /'', ''cp /'',
      ''apt'', ''yum'', ''pacman'', ''dnf'', ''zypper'']"

definition isDangerousCommand :: "string \<Rightarrow> bool" where
  "isDangerousCommand command = list_ex (Contains command) dangerousPatterns"

definition validate_systemPrompt :: string where
  "validate_systemPrompt =
     ''You are a bash command validator. Your task is to ensure the provided command is safe and appropriate'' @ [CHR 0x0A] @
     ''to execute. Analyze the command and provide a safety assessment.'' @ [CHR 0x0A] @
     [CHR 0x0A] @
     ''Consider these risk factors:'' @ [CHR 0x0A] @
     ''1. System modifications (rm, chmod, etc.)'' @ [CHR 0x0A] @
     ''2. Network exposure (opening ports, changing firewall)'' @ [CHR 0x0A] @
     ''3. Privilege escalation (sudo)'' @ [CHR 0x0A] @
     ''4. Resource intensive operations'' @ [CHR 0x0A] @
     ''5. Data destruction potential'' @ [CHR 0x0A] @
     ''6. Security implications'' @ [CHR 0x0A] @
     ''7. Impact on the current working directory'' @ [CHR 0x0A] @
     [CHR 0x0A] @
     ''IMPORTANT: Commands are being executed in the user'' @ [CHR 0x27] @ ''s CURRENT DIRECTORY.'' @ [CHR 0x0A] @
     ''- Be extra cautious about commands that might delete or modify files in the current directory'' @ [CHR 0x0A] @
     ''- Consider the risk of modifying important project files in the current directory'' @ [CHR 0x0A] @
     ''- Commands using relative paths (like '' @ [CHR 0x22] @ ''./file'' @ [CHR 0x22] @ '' or '' @ [CHR 0x22] @ ''../file'' @ [CHR 0x22] @ '') are operating on the current directory'' @ [CHR 0x0A] @
     [CHR 0x0A] @
     ''Rate the command on a scale of 1-10 where:'' @ [CHR 0x0A] @
     ''1-3: Safe with no significant risk'' @ [CHR 0x0A] @
     ''4-6: Moderate risk or system changes'' @ [CHR 0x0A] @
     ''7-10: High risk, potential for data loss or security issues'' @ [CHR 0x0A] @
     [CHR 0x0A] @
     ''BEGIN your assessment with either SAFE, CAUTION, or DANGEROUS followed by your safety rating (1-10).'' @ [CHR 0x0A] @
     ''Then provide 1-2 sentences explaining your rating, with specific attention to any risks to the current directory.''"

definition parse_assessment :: "string \<Rightarrow> bool" where
  \<comment> \<open>lines 102 to 122 of \<open>validateWithLLM\<close>: the flag returned for an assessment\<close>
  "parse_assessment assessment =
     (if safeRegex assessment then True
      else if cautionRegex assessment then False
      else if dangerRegex assessment then False
      else let assessmentLower = ToLower assessment
           in if Contains assessmentLower ''safe'' \<and> \<not> Contains assessmentLower ''unsafe''
              then True
              else False)"

definition validate_prompt :: "string \<Rightarrow> string \<Rightarrow> string" where
  \<comment> \<open>the \<open>fmt.Sprintf\<close> of lines 94 and 95\<close>
  "validate_prompt command dir =
     ''Analyze this bash command for safety: '' @ command @ nl @ nl @
     ''Command will be executed in directory: '' @ dir"

definition validateWithLLM ::
  "env \<Rightarrow> ValidationNode \<Rightarrow> world \<Rightarrow> string \<Rightarrow> (string + bool \<times> string) \<times> world" where
  "validateWithLLM e n w command =
     (let prompt = validate_prompt command (node_WorkingDirectory n)
      in case llm_Generate e w prompt validate_systemPrompt of
           (Inl err, w') \<Rightarrow> (Inl (''validation LLM error: '' @ err), w')
         | (Inr assessment, w') \<Rightarrow> (Inr (parse_assessment assessment, assessment), w'))"


definition suggest_systemPrompt :: string where
  "suggest_systemPrompt =
     ''You are a bash command correction assistant. Your task is to suggest an alternative command when a command fails.'' @ [CHR 0x0A] @
     ''Carefully analyze the error message to understand exactly why the command failed and suggest a working alternative.'' @ [CHR 0x0A] @
     [CHR 0x0A] @
     ''Guidelines:'' @ [CHR 0x0A] @
     ''1. THOROUGHLY analyze the error message to determine the exact cause of failure'' @ [CHR 0x0A] @
     ''2. Consider the original user intent from their natural language request'' @ [CHR 0x0A] @
     ''3. Identify common patterns in the error:'' @ [CHR 0x0A] @
     ''   - Command not found: The command doesn'' @ [CHR 0x27] @ ''t exist or isn'' @ [CHR 0x27] @ ''t installed'' @ [CHR 0x0A] @
     ''   - Permission denied: The user lacks necessary permissions'' @ [CHR 0x0A] @
     ''   - No such file/directory: The specified path doesn'' @ [CHR 0x27] @ ''t exist'' @ [CHR 0x0A] @
     ''   - Invalid option/argument: Incorrect flag or parameter'' @ [CHR 0x0A] @
     ''   - Syntax error: Malformed command structure'' @ [CHR 0x0A] @
     [CHR 0x0A] @
     ''4. Provide a command that specifically addresses the detected error'' @ [CHR 0x0A] @
     ''5. Make sure your suggestion works in the specified working directory'' @ [CHR 0x0A] @
     ''6. Return ONLY the corrected command without any explanation or additional text'' @ [CHR 0x0A] @
     [CHR 0x0A] @
     ''Error-specific guidance:'' @ [CHR 0x0A] @
     ''- For '' @ [CHR 0x22] @ ''command not found'' @ [CHR 0x22] @ '': Suggest installation commands or alternative commands with similar functionality'' @ [CHR 0x0A] @
     ''- For '' @ [CHR 0x22] @ ''permission denied'' @ [CHR 0x22] @ '': Suggest adding sudo (if appropriate) or fixing file permissions'' @ [CHR 0x0A] @
     ''- For '' @ [CHR 0x22] @ ''file not found'' @ [CHR 0x22] @ '': Suggest creating the file, searching for it, or using a different path'' @ [CHR 0x0A] @
     ''- For '' @ [CHR 0x22] @ ''invalid option'' @ [CHR 0x22] @ '': Fix the flag syntax or suggest the correct option format'' @ [CHR 0x0A] @
     ''- For '' @ [CHR 0x22] @ ''syntax error'' @ [CHR 0x22] @ '': Correct quoting, escaping, or command structure'' @ [CHR 0x0A] @
     [CHR 0x0A] @
     ''Examples of corrections:'' @ [CHR 0x0A] @
     ''- If '' @ [CHR 0x22] @ ''ls -l /missing-dir'' @ [CHR 0x22] @ '' fails with '' @ [CHR 0x22] @ ''No such file or directory'' @ [CHR 0x22] @ '', suggest '' @ [CHR 0x22] @ ''ls -l . || mkdir /missing-dir && ls -l /missing-dir'' @ [CHR 0x22, CHR 0x0A] @
     ''- If '' @ [CHR 0x22] @ ''grep -q pattern file'' @ [CHR 0x22] @ '' fails with '' @ [CHR 0x22] @ ''No such file'' @ [CHR 0x22] @ '', suggest '' @ [CHR 0x22] @ ''find . -type f -exec grep -l pattern {} '' @ [CHR 0x5C] @ '';'' @ [CHR 0x22, CHR 0x0A] @
     ''- If '' @ [CHR 0x22] @ ''apt-get install package'' @ [CHR 0x22] @ '' fails with '' @ [CHR 0x22] @ ''permission denied'' @ [CHR 0x22] @ '', suggest '' @ [CHR 0x22] @ ''sudo apt-get install package'' @ [CHR 0x22, CHR 0x0A] @
     ''- If '' @ [CHR 0x22] @ ''python script.py'' @ [CHR 0x22] @ '' fails with '' @ [CHR 0x22] @ ''command not found'' @ [CHR 0x22] @ '', suggest '' @ [CHR 0x22] @ ''python3 script.py'' @ [CHR 0x22, CHR 0x0A] @
     ''- If '' @ [CHR 0x22] @ ''docker rnu'' @ [CHR 0x22] @ '' fails with '' @ [CHR 0x22] @ ''command not found'' @ [CHR 0x22] @ '', suggest '' @ [CHR 0x22] @ ''docker run'' @ [CHR 0x22, CHR 0x0A] @
     [CHR 0x0A] @
     ''IMPORTANT: Return ONLY the corrected command, nothing else.''"

definition ls_output :: string where
  "ls_output =
     ''total 8748'' @ [CHR 0x0A] @
     ''drwxrwxr-x  3 mshogin mshogin    4096 Mar 17 01:32 .'' @ [CHR 0x0A] @
     ''drwxrwxr-x 21 mshogin mshogin    4096 Mar 17 00:57 ..'' @ [CHR 0x0A] @
     ''-rwxrwxr-x  1 mshogin mshogin 8941512 Mar 17 01:32 aiagent'' @ [CHR 0x0A] @
     ''drwxrwxr-x  3 mshogin mshogin    4096 Mar 17 01:04 cmd'' @ [CHR 0x0A] @
     ''-rw-rw-r--  1 mshogin mshogin      26 Mar 17 01:04 go.mod''"

definition df_output :: string where
  "df_output =
     ''Filesystem      Size  Used Avail Use% Mounted on'' @ [CHR 0x0A] @
     ''/dev/sda1        50G   25G   25G  50% /'' @ [CHR 0x0A] @
     ''/dev/sdb1       100G   20G   80G  20% /home'' @ [CHR 0x0A] @
     ''/dev/sdc1       200G  180G   20G  90% /data''"

definition uname_output :: string where
  "uname_output =
     ''Linux hostname 5.15.0-76-generic #83-Ubuntu SMP Wed Feb 14 10:54:05 UTC 2024 x86_64 GNU/Linux''"

definition free_output :: string where
  "free_output =
     ''              total        used        free      shared  buff/cache   available'' @ [CHR 0x0A] @
     ''Mem:           16Gi       4.5Gi       8.0Gi       0.5Gi       3.0Gi      11.0Gi'' @ [CHR 0x0A] @
     ''Swap:           4Gi       0.0Gi       4.0Gi''"

fun string_of_nat :: "nat \<Rightarrow> string" where
  "string_of_nat n =
     (if n < 10 then [char_of (48 + n)] else string_of_nat (n div 10) @ [char_of (48 + n mod 10)])"

definition string_of_int :: "int \<Rightarrow> string" where
  \<comment> \<open>the verb \<open>%d\<close> of Go's \<open>fmt\<close>\<close>
  "string_of_int i = (if i < 0 then ''-'' @ string_of_nat (nat (- i)) else string_of_nat (nat i))"

declare string_of_nat.simps [simp del]

definition Error :: "exec_error \<Rightarrow> string" where
  "Error err = (case err of ExitError msg code \<Rightarrow> msg | OtherError msg ty \<Rightarrow> msg)"

definition errorType_of :: "string \<Rightarrow> string" where
  \<comment> \<open>lines 128 to 141 of \<open>suggestAlternativeCommand\<close>\<close>
  "errorType_of errorMessage =
     (if Contains errorMessage ''command not found'' then ''command_not_found''
      else if Contains errorMessage ''permission denied'' then ''permission_denied''
      else if Contains errorMessage ''No such file'' \<or> Contains errorMessage ''not exist''
        then ''file_not_found''
      else if Contains errorMessage ''not a directory'' then ''not_a_directory''
      else if Contains errorMessage ''invalid option'' \<or> Contains errorMessage ''invalid argument''
        then ''invalid_option''
      else if Contains errorMessage ''syntax error'' then ''syntax_error''
      else ''unknown'')"

definition suggest_prompt :: "string \<Rightarrow> string \<Rightarrow> string \<Rightarrow> string \<Rightarrow> string" where
  \<comment> \<open>the \<open>fmt.Sprintf\<close> of lines 176 and 177\<close>
  "suggest_prompt originalInput workingDir failedCommand errorMessage =
     ''Original user request: '' @ originalInput @ nl @
     ''Working directory: '' @ workingDir @ nl @
     ''Failed command: '' @ failedCommand @ nl @
     ''Error type: '' @ errorType_of errorMessage @ nl @
     ''Detailed error message: '' @ errorMessage @ nl @ nl @
     ''Suggest an alternative command that will work:''"

definition suggestAlternativeCommand ::
  "env \<Rightarrow> ValidationNode \<Rightarrow> world \<Rightarrow> string \<Rightarrow> string \<Rightarrow> string \<Rightarrow> string \<Rightarrow>
   (string + string) \<times> world" where
  "suggestAlternativeCommand e n w failedCommand errorMessage originalInput workingDir =
     (let errorType = errorType_of errorMessage;
          prompt = suggest_prompt originalInput workingDir failedCommand errorMessage;
          w1 = (if node_Verbose n
                then Printf w (''Asking LLM for alternative command with error type: '' @ errorType @ nl)
                else w)
      in case llm_Generate e w1 prompt suggest_systemPrompt of
           (Inl err, w2) \<Rightarrow> (Inl (''failed to generate alternative command: '' @ err), w2)
         | (Inr response, w2) \<Rightarrow>
             (let response = TrimSpace response
              in if response = [] \<or> response = failedCommand
                 then (Inl (''couldn'' @ [CHR 0x27] @ ''t generate a useful alternative command''), w2)
                 else (Inr response, w2)))"

definition boldGreen :: string where "boldGreen = [CHR 0x1B] @ ''[1;92m''"
definition boldYellow :: string where "boldYellow = [CHR 0x1B] @ ''[1;93m''"
definition boldRed :: string where "boldRed = [CHR 0x1B] @ ''[1;91m''"
definition reset :: string where "reset = [CHR 0x1B] @ ''[0m''"

definition simulatedCommands :: "string list" where
  "simulatedCommands = [''ls -la'', ''df -h'', ''uname -a'', ''free -h'']"

definition isSimulated :: "string \<Rightarrow> bool" where
  \<comment> \<open>lines 219 to 227 of \<open>Process\<close>\<close>
  "isSimulated command = list_ex (Contains command) simulatedCommands"

definition affirmative :: "string \<Rightarrow> bool" where
  \<comment> \<open>the test of the line read from standard input, lines 257 to 259 and 370 to 372\<close>
  "affirmative line = (let response = TrimSpace (ToLower line) in response = ''y'' \<or> response = ''yes'')"

definition confirm_question :: string where
  "confirm_question = ''Execute this command? [y/N]: ''"

definition retry_question :: string where
  "retry_question = ''Run this alternative command? [y/N]: ''"

definition cancelled :: string where
  "cancelled = ''Command execution cancelled by user.''"

text \<open>
  \<open>Process\<close> is modelled in the order of its text. \<open>Process_validate\<close> is lines 229 to 273:
  its result is False where the source returns with the cancellation result and True where
  control reaches line 275. \<open>Process_failure\<close> is lines 301 to 385, the branch of a failed
  command. \<open>Process_execute\<close> is lines 275 to 393. \<open>Process_body\<close> is the whole body; its
  outcome is either the state at a \<open>return nil\<close> or the state at the recursive call
  \<open>return n.Process(state)\<close> of line 378. \<open>Process\<close> returns no error on any path.
\<close>

definition Process_validate :: "env \<Rightarrow> ValidationNode \<Rightarrow> world \<Rightarrow> State \<Rightarrow> bool \<times> world" where
  "Process_validate e n w state =
     (if \<not> isSimulated (Command state) \<and> \<not> ForceApproval n then
        (let w1 = (if isDangerousCommand (Command state)
                   then Printf (Printf w (boldRed @ ''Potentially dangerous command detected!'' @ reset @ nl))
                          (boldYellow @
                           ''This command contains operations that might modify system files or settings.'' @
                           reset @ nl)
                   else w)
         in case validateWithLLM e n w1 (Command state) of
              (Inl err, w2) \<Rightarrow>
                (True, Printf w2 (boldYellow @ ''Warning: Command validation failed: '' @ err @ reset @ nl))
            | (Inr (safe, assessment), w2) \<Rightarrow>
                (let w3 = (if node_Verbose n
                           then Printf w2 (''LLM Safety Assessment: '' @ assessment @ nl)
                           else Printf w2 (''Safety Assessment: '' @ assessment @ nl))
                 in if safe \<and> \<not> isDangerousCommand (Command state)
                    then (True, Printf w3 (boldGreen @
                            ''Command appears safe and will be executed automatically.'' @ reset @ nl))
                    else (let w4 = Printf w3 (boldYellow @ ''Confirmation required for this command.'' @ reset @ nl);
                              w5 = Printf w4 confirm_question
                          in case reader_ReadString e w5 of
                               (response, w6) \<Rightarrow> (affirmative response, w6))))
      else if ForceApproval n then
        (True, if node_Verbose n then Printf w (''Force approval enabled, skipping validation...'' @ nl) else w)
      else
        (True, if node_Verbose n then Printf w (''Using simulated output for this test command...'' @ nl) else w))"

datatype outcome =
  Return State world    \<comment> \<open>\<open>return nil\<close>\<close>
| Recurse State world    \<comment> \<open>\<open>return n.Process(state)\<close>\<close>

fun world_of :: "outcome \<Rightarrow> world" where
  "world_of (Return state w) = w"
| "world_of (Recurse state w) = w"

fun state_of :: "outcome \<Rightarrow> State" where
  "state_of (Return state w) = state"
| "state_of (Recurse state w) = state"

definition asked :: "string \<Rightarrow> world \<Rightarrow> nat" where
  \<comment> \<open>how often a question has been written to standard output\<close>
  "asked question w = length (filter (\<lambda>s. s = question) (stdout w))"

definition errorDetail_of :: "exec_error \<Rightarrow> string" where
  "errorDetail_of err =
     (case err of
        ExitError msg code \<Rightarrow> ''Exit code: '' @ string_of_int code
      | OtherError msg ty \<Rightarrow> ''Error type: '' @ ty)"

definition errorMessage_of :: "exec_error \<Rightarrow> string \<Rightarrow> string" where
  "errorMessage_of err errorOutput =
     ''Command execution failed: '' @ Error err @ nl @ errorDetail_of err @ nl @
     ''Output: '' @ errorOutput"

definition grey :: string where "grey = [CHR 0x1B] @ ''[90m''"

definition Process_failure ::
  "env \<Rightarrow> ValidationNode \<Rightarrow> world \<Rightarrow> State \<Rightarrow> string \<Rightarrow> exec_error \<Rightarrow> outcome" where
  "Process_failure e n w state errorOutput err =
     (let errorMessage = errorMessage_of err errorOutput;
          w1 = (if node_Verbose n
                then Printf (Printf (Printf w
                       (''Command failed with details: '' @ Error err @ nl))
                       (''Error output: '' @ errorOutput @ nl))
                       (''Generating alternative command suggestion...'' @ nl)
                else w)
      in case suggestAlternativeCommand e n w1 (Command state) errorMessage (Input state)
                (WorkingDirectory state) of
           (Inl suggestErr, w2) \<Rightarrow>
             Return (state\<lparr>RawOutput := errorMessage, FinalResult := errorMessage,
                            NextNode := NodeTypeFormatter\<rparr>)
                    (if node_Verbose n
                     then Printf w2 (''Failed to generate alternative: '' @ suggestErr @ nl)
                     else w2)
         | (Inr alternativeCommand, w2) \<Rightarrow>
             (let state1 = state\<lparr>RawOutput := errorMessage @ nl @ nl @
                                    ''Alternative command suggestion: '' @ alternativeCommand\<rparr>;
                  w3 = Printf w2 (nl @ boldRed @ ''Command failed: '' @ Command state @ reset @ nl);
                  w4 = Printf w3 (boldRed @ ''Error:'' @ reset @ '' '' @ Error err @ nl);
                  w5 = (if errorOutput \<noteq> []
                        then Printf w4 ([CHR 0x1B] @ ''[91m'' @ ''Output:'' @ reset @ nl @ errorOutput @ nl)
                        else w4);
                  w6 = Printf w5 (nl @ boldYellow @ ''Suggested alternative command:'' @ reset @ '' '' @
                                  alternativeCommand @ nl);
                  w7 = (if Contains errorMessage ''command not found'' then
                          Printf w6 (grey @ ''The command was not found. The suggested alternative might use a different command name or include installation instructions.'' @ reset @ nl)
                        else if Contains errorMessage ''permission denied'' then
                          Printf w6 (grey @ ''You might need proper permissions to run this command. The suggested alternative addresses permission issues.'' @ reset @ nl)
                        else if Contains errorMessage ''No such file'' then
                          Printf w6 (grey @ ''A file or directory was not found. The suggested alternative might use a different path or create the missing file.'' @ reset @ nl)
                        else w6);
                  w8 = Printf w7 retry_question
              in case reader_ReadString e w8 of
                   (response, w9) \<Rightarrow>
                     if affirmative response
                     then Recurse (state1\<lparr>Command := alternativeCommand\<rparr>)
                            (Printf w9 (boldGreen @ ''Executing alternative command: '' @
                                        alternativeCommand @ reset @ nl))
                     else Return (state1\<lparr>FinalResult := RawOutput state1,
                                         NextNode := NodeTypeFormatter\<rparr>) w9))"

definition simulated :: "State \<Rightarrow> string \<Rightarrow> State" where
  \<comment> \<open>the two assignments of each simulated command, and line 392\<close>
  "simulated state output =
     state\<lparr>RawOutput := output, FinalResult := ''Command output:'' @ nl @ output,
           NextNode := NodeTypeFormatter\<rparr>"

definition Process_execute :: "env \<Rightarrow> ValidationNode \<Rightarrow> world \<Rightarrow> State \<Rightarrow> outcome" where
  "Process_execute e n w state =
     (let w1 = (if node_Verbose n then Printf w (''Executing command...'' @ nl) else w)
      in if Contains (Command state) ''ls -la'' then Return (simulated state ls_output) w1
         else if Contains (Command state) ''df -h'' then Return (simulated state df_output) w1
         else if Contains (Command state) ''uname -a'' then Return (simulated state uname_output) w1
         else if Contains (Command state) ''free -h'' then Return (simulated state free_output) w1
         else case cmd_CombinedOutput e w1 (Command state) of
                ((output, Some err), w2) \<Rightarrow> Process_failure e n w2 state output err
              | ((output, None), w2) \<Rightarrow>
                  Return (state\<lparr>RawOutput := output, FinalResult := ''Command output:'' @ nl @ output,
                                 NextNode := NodeTypeFormatter\<rparr>) w2)"

definition Process_announce :: "ValidationNode \<Rightarrow> world \<Rightarrow> State \<Rightarrow> world" where
  \<comment> \<open>the output of lines 204 to 216\<close>
  "Process_announce n w state =
     (let w1 = (if node_Verbose n
                then Printf (Printf w (''Validation node checking command: '' @ Command state @ nl))
                       (''Working directory: '' @ node_WorkingDirectory n @ nl)
                else w)
      in Printf w1 (nl @ ''Command: '' @ boldGreen @ Command state @ reset @ nl @ nl))"

definition Process_body :: "env \<Rightarrow> ValidationNode \<Rightarrow> world \<Rightarrow> State \<Rightarrow> outcome" where
  "Process_body e n0 w state =
     (let n = n0\<lparr>node_WorkingDirectory := WorkingDirectory state\<rparr>;
          w2 = Process_announce n w state
      in case Process_validate e n w2 state of
           (False, w3) \<Rightarrow>
             Return (state\<lparr>RawOutput := cancelled, FinalResult := cancelled,
                            NextNode := NodeTypeFormatter\<rparr>) w3
         | (True, w3) \<Rightarrow> Process_execute e n w3 state)"

text \<open>
  The recursion of \<open>Process\<close> has no bound in the source: an operator who accepts every
  suggestion of a model whose suggestions all fail keeps it going. The model counts the
  calls with fuel; \<open>None\<close> means the fuel ran out before \<open>Process\<close> returned. The receiver
  \<open>n\<close> is passed on as it was: the body rewrites its working directory from the state on
  entry, and no other field of it is written.
\<close>

fun Process :: "nat \<Rightarrow> env \<Rightarrow> ValidationNode \<Rightarrow> world \<Rightarrow> State \<Rightarrow> (State \<times> world) option" where
  "Process 0 e n w state = None"
| "Process (Suc fuel) e n w state =
     (case Process_body e n w state of
        Return state' w' \<Rightarrow> Some (state', w')
      | Recurse state' w' \<Rightarrow> Process fuel e n w' state')"

text \<open>
  Inputs for worked examples: the state as \<open>runLangGraph\<close> of \<open>cmd/aiagent/main.go\<close>
  creates it, once the bash node has stored a command and routed to the validation node;
  the node as \<open>NewValidationNode\<close> creates it without the verbose flag; and a world in
  which nothing has happened yet.
\<close>

definition world0 :: world where
  "world0 = \<lparr>llm_calls = 0, stdin_reads = 0, spawned = [], stdout = []\<rparr>"

definition node0 :: ValidationNode where
  "node0 = \<lparr>node_Verbose = False, ForceApproval = False, node_WorkingDirectory = []\<rparr>"

definition no_task :: TaskStatus where
  "no_task = \<lparr>NodeType = [], Goal = [], IsCompleted = False, Result = []\<rparr>"

definition validating :: "string \<Rightarrow> string \<Rightarrow> State" where
  "validating input command =
     \<lparr>Input = input, Command = command, NextNode = NodeTypeValidation, FinalResult = [],
      RawOutput = [], Verbose = False, WorkingDirectory = ''/home/user/project'',
      CurrentTask = no_task, TaskHistory = [], GlobalGoal = [], IsGoalMet = False,
      DirectoryContents = [], NeedsFileContent = False, FilePatterns = [],
      FileCountLimit = 50, FileSizeLimit = 100000, AnalyticsQuestion = []\<rparr>"

definition scripted :: "(string + string) list \<Rightarrow> string list \<Rightarrow> (string \<times> exec_error option) list \<Rightarrow> env" where
  \<comment> \<open>a world that answers from three scripts, and with an empty answer after their ends\<close>
  "scripted replies lines results =
     \<lparr>Generate = (\<lambda>k prompt systemPrompt. if k < length replies then replies ! k else Inr []),
      ReadString = (\<lambda>k. if k < length lines then lines ! k else []),
      CombinedOutput = (\<lambda>k command. if k < length results then results ! k else ([], None))\<rparr>"

section \<open>Properties of the validation node\<close>

subsection \<open>Bookkeeping of the world\<close>

lemma Printf_fields [simp]:
  "llm_calls (Printf w s) = llm_calls w"
  "stdin_reads (Printf w s) = stdin_reads w"
  "spawned (Printf w s) = spawned w"
  "stdout (Printf w s) = stdout w @ [s]"
  by (simp_all add: Printf_def)

lemma asked_Printf [simp]: "asked q (Printf w s) = asked q w + (if s = q then 1 else 0)"
  by (simp add: asked_def)

lemma asked_update [simp]:
  "asked q (w\<lparr>llm_calls := a\<rparr>) = asked q w"
  "asked q (w\<lparr>stdin_reads := b\<rparr>) = asked q w"
  "asked q (w\<lparr>spawned := c\<rparr>) = asked q w"
  by (simp_all add: asked_def)

lemma eq_confirm_question:
  "(x = confirm_question) = (x = ''Execute this command? [y/N]: '')"
  by (simp add: confirm_question_def)

lemmas question_simps = eq_confirm_question boldRed_def boldYellow_def boldGreen_def grey_def
  nl_def retry_question_def

lemma validateWithLLM_reply:
  "Generate e (llm_calls w) (validate_prompt c (node_WorkingDirectory n)) validate_systemPrompt = Inr a \<Longrightarrow>
   validateWithLLM e n w c = (Inr (parse_assessment a, a), w\<lparr>llm_calls := Suc (llm_calls w)\<rparr>)"
  by (simp add: validateWithLLM_def llm_Generate_def)

lemma validateWithLLM_error:
  "Generate e (llm_calls w) (validate_prompt c (node_WorkingDirectory n)) validate_systemPrompt = Inl err \<Longrightarrow>
   validateWithLLM e n w c =
     (Inl (''validation LLM error: '' @ err), w\<lparr>llm_calls := Suc (llm_calls w)\<rparr>)"
  by (simp add: validateWithLLM_def llm_Generate_def)

lemma Process_announce_fields [simp]:
  "llm_calls (Process_announce n w state) = llm_calls w"
  "stdin_reads (Process_announce n w state) = stdin_reads w"
  "spawned (Process_announce n w state) = spawned w"
  "asked confirm_question (Process_announce n w state) = asked confirm_question w"
  by (simp_all add: Process_announce_def Let_def question_simps)

lemma Process_validate_reply:
  assumes "\<not> ForceApproval n" "\<not> isSimulated (Command state)"
    and "Generate e (llm_calls w) (validate_prompt (Command state) (node_WorkingDirectory n))
           validate_systemPrompt = Inr a"
  shows "\<exists>w'. Process_validate e n w state =
           (if parse_assessment a \<and> \<not> isDangerousCommand (Command state) then True
            else affirmative (ReadString e (stdin_reads w)), w') \<and>
         spawned w' = spawned w \<and> llm_calls w' = Suc (llm_calls w) \<and>
         stdin_reads w' = stdin_reads w +
           (if parse_assessment a \<and> \<not> isDangerousCommand (Command state) then 0 else 1) \<and>
         asked confirm_question w' = asked confirm_question w +
           (if parse_assessment a \<and> \<not> isDangerousCommand (Command state) then 0 else 1)"
  using assms
  by (simp add: Process_validate_def Let_def validateWithLLM_reply reader_ReadString_def question_simps)

lemma suggestAlternativeCommand_world:
  "suggestAlternativeCommand e n w f m i d = (r, w') \<Longrightarrow>
   spawned w' = spawned w \<and> stdin_reads w' = stdin_reads w \<and>
   asked confirm_question w' = asked confirm_question w \<and> llm_calls w' = Suc (llm_calls w)"
  by (auto simp: suggestAlternativeCommand_def llm_Generate_def Let_def question_simps
           split: sum.splits if_splits)

lemma Process_failure_world:
  "spawned (world_of (Process_failure e n w state out err)) = spawned w \<and>
   asked confirm_question (world_of (Process_failure e n w state out err)) = asked confirm_question w"
proof (cases "suggestAlternativeCommand e n
                (if node_Verbose n
                 then Printf (Printf (Printf w
                        (''Command failed with details: '' @ Error err @ nl))
                        (''Error output: '' @ out @ nl))
                        (''Generating alternative command suggestion...'' @ nl)
                 else w)
                (Command state) (errorMessage_of err out) (Input state) (WorkingDirectory state)")
  case (Pair r w')
  from suggestAlternativeCommand_world [OF Pair] show ?thesis
    by (cases r)
       (simp_all add: Process_failure_def Let_def Pair reader_ReadString_def question_simps
                 split: if_splits)
qed

lemma not_simulated:
  assumes "\<not> isSimulated command"
  shows "\<not> Contains command ''ls -la''" "\<not> Contains command ''df -h''"
    "\<not> Contains command ''uname -a''" "\<not> Contains command ''free -h''"
  using assms by (simp_all add: isSimulated_def simulatedCommands_def)

lemma Process_execute_real:
  assumes "\<not> isSimulated (Command state)"
  shows "spawned (world_of (Process_execute e n w state)) = spawned w @ [Command state] \<and>
         asked confirm_question (world_of (Process_execute e n w state)) = asked confirm_question w"
  using Process_failure_world
  by (simp add: Process_execute_def Let_def not_simulated [OF assms] cmd_CombinedOutput_def
                question_simps split: prod.splits option.splits)

lemma Process_approved:
  "Process_validate e (n\<lparr>node_WorkingDirectory := WorkingDirectory state\<rparr>)
     (Process_announce (n\<lparr>node_WorkingDirectory := WorkingDirectory state\<rparr>) w state) state = (True, wv)
   \<Longrightarrow> Process_body e n w state =
         Process_execute e (n\<lparr>node_WorkingDirectory := WorkingDirectory state\<rparr>) wv state"
  by (simp add: Process_body_def Let_def)

lemma MatchString_here: "re s \<Longrightarrow> MatchString re s"
  by (cases s) simp_all

lemma MatchString_append: "MatchString re s \<Longrightarrow> MatchString re (pre @ s)"
  by (induction pre) simp_all

lemmas rating_simps = rating_def fold_eq_def one_of_def re_space_def lower_byte_def

lemma rating_SAFE:
  "sc \<in> set [''1'', ''2'', ''3''] \<Longrightarrow>
   rating ''SAFE'' (one_of ''123'') (''SAFE ['' @ sc @ '']'' @ post)"
  by (auto simp: rating_simps)

lemma rating_CAUTION:
  "sc \<in> set [''4'', ''5'', ''6''] \<Longrightarrow>
   rating ''CAUTION'' (one_of ''456'') (''CAUTION ['' @ sc @ '']'' @ post)"
  by (auto simp: rating_simps)

lemma rating_DANGEROUS:
  "sc \<in> set [''7'', ''8'', ''9'', ''10''] \<Longrightarrow>
   rating ''DANGEROUS'' (\<lambda>t. one_of ''789'' t \<or> prefix ''10'' t) (''DANGEROUS ['' @ sc @ '']'' @ post)"
  by (auto simp: rating_simps)

subsection \<open>Parsing the safety assessment\<close>

text \<open>
  Claim C2, as the code has it. \<open>validateWithLLM\<close> returns a flag, the assessment and an
  error; it returns the error only when the model call fails, and it returns neither a score
  nor a verdict. The flag is a function of the assessment text alone: an assessment that
  contains \<open>SAFE [s]\<close> with s from 1 to 3 is flagged safe; one that contains \<open>CAUTION [s]\<close>
  with s from 4 to 6, or \<open>DANGEROUS [s]\<close> with s from 7 to 10, and holds no match of the
  SAFE pattern is flagged not safe; and where none of the three patterns matches, whatever
  the score, the assessment is not rejected: it is flagged safe exactly when its lower-case
  form contains \<open>safe\<close> and does not contain \<open>unsafe\<close>.
\<close>

theorem parse_assessment_rating:
  "(sc \<in> set [''1'', ''2'', ''3''] \<longrightarrow> parse_assessment (pre @ ''SAFE ['' @ sc @ '']'' @ post)) \<and>
   (sc \<in> set [''4'', ''5'', ''6''] \<and> \<not> safeRegex (pre @ ''CAUTION ['' @ sc @ '']'' @ post) \<longrightarrow>
      \<not> parse_assessment (pre @ ''CAUTION ['' @ sc @ '']'' @ post)) \<and>
   (sc \<in> set [''7'', ''8'', ''9'', ''10''] \<and> \<not> safeRegex (pre @ ''DANGEROUS ['' @ sc @ '']'' @ post) \<longrightarrow>
      \<not> parse_assessment (pre @ ''DANGEROUS ['' @ sc @ '']'' @ post)) \<and>
   (\<not> safeRegex a \<and> \<not> cautionRegex a \<and> \<not> dangerRegex a \<longrightarrow>
      parse_assessment a = (Contains (ToLower a) ''safe'' \<and> \<not> Contains (ToLower a) ''unsafe'')) \<and>
   (Generate e (llm_calls w) (validate_prompt c (node_WorkingDirectory n)) validate_systemPrompt = Inr a \<longrightarrow>
      fst (validateWithLLM e n w c) = Inr (parse_assessment a, a))"
proof (intro conjI impI)
  assume "sc \<in> set [''1'', ''2'', ''3'']"
  then have "safeRegex (pre @ ''SAFE ['' @ sc @ '']'' @ post)"
    unfolding safeRegex_def by (intro MatchString_append MatchString_here rating_SAFE)
  then show "parse_assessment (pre @ ''SAFE ['' @ sc @ '']'' @ post)"
    by (simp add: parse_assessment_def)
next
  assume "sc \<in> set [''4'', ''5'', ''6''] \<and> \<not> safeRegex (pre @ ''CAUTION ['' @ sc @ '']'' @ post)"
  moreover from this have "cautionRegex (pre @ ''CAUTION ['' @ sc @ '']'' @ post)"
    unfolding cautionRegex_def by (intro MatchString_append MatchString_here rating_CAUTION) simp
  ultimately show "\<not> parse_assessment (pre @ ''CAUTION ['' @ sc @ '']'' @ post)"
    by (simp add: parse_assessment_def)
next
  assume "sc \<in> set [''7'', ''8'', ''9'', ''10''] \<and> \<not> safeRegex (pre @ ''DANGEROUS ['' @ sc @ '']'' @ post)"
  moreover from this have "dangerRegex (pre @ ''DANGEROUS ['' @ sc @ '']'' @ post)"
    unfolding dangerRegex_def by (intro MatchString_append MatchString_here rating_DANGEROUS) simp
  ultimately show "\<not> parse_assessment (pre @ ''DANGEROUS ['' @ sc @ '']'' @ post)"
    by (simp add: parse_assessment_def)
next
  assume "\<not> safeRegex a \<and> \<not> cautionRegex a \<and> \<not> dangerRegex a"
  then show "parse_assessment a = (Contains (ToLower a) ''safe'' \<and> \<not> Contains (ToLower a) ''unsafe'')"
    by (simp add: parse_assessment_def Let_def)
next
  assume "Generate e (llm_calls w) (validate_prompt c (node_WorkingDirectory n)) validate_systemPrompt = Inr a"
  then show "fst (validateWithLLM e n w c) = Inr (parse_assessment a, a)"
    by (simp add: validateWithLLM_reply)
qed

text \<open>The theorem at seven concrete assessments.\<close>

theorem parse_assessment_rating_witness:
  "parse_assessment ''SAFE [2] only lists files'' \<and>
   \<not> parse_assessment ''CAUTION [5] changes a setting'' \<and>
   \<not> parse_assessment ''DANGEROUS [9] deletes files'' \<and>
   \<not> parse_assessment ''DANGEROUS [10] wipes the disk'' \<and>
   parse_assessment ''Harmless and safe to run'' \<and>
   \<not> parse_assessment ''No rating given'' \<and>
   fst (validateWithLLM (scripted [Inr ''SAFE [2] only lists files''] [] []) node0 world0 ''ls'') =
     Inr (True, ''SAFE [2] only lists files'')"
proof -
  have c: "\<not> safeRegex ''CAUTION [5] changes a setting''"
    and d: "\<not> safeRegex ''DANGEROUS [9] deletes files''"
    and d10: "\<not> safeRegex ''DANGEROUS [10] wipes the disk''"
    and h: "\<not> safeRegex ''Harmless and safe to run'' \<and> \<not> cautionRegex ''Harmless and safe to run'' \<and>
            \<not> dangerRegex ''Harmless and safe to run''"
    and r: "\<not> safeRegex ''No rating given'' \<and> \<not> cautionRegex ''No rating given'' \<and>
            \<not> dangerRegex ''No rating given''"
    by code_simp+
  have hk: "Contains (ToLower ''Harmless and safe to run'') ''safe'' \<and>
            \<not> Contains (ToLower ''Harmless and safe to run'') ''unsafe''"
    and rk: "\<not> Contains (ToLower ''No rating given'') ''safe''"
    by code_simp+
  have g: "Generate (scripted [Inr ''SAFE [2] only lists files''] [] []) (llm_calls world0)
             (validate_prompt ''ls'' (node_WorkingDirectory node0)) validate_systemPrompt =
           Inr ''SAFE [2] only lists files''"
    by (simp add: scripted_def world0_def)
  show ?thesis
    using parse_assessment_rating [of "''2''" "[]" "'' only lists files''"]
      parse_assessment_rating [of "''5''" "[]" "'' changes a setting''"] c
      parse_assessment_rating [of "''9''" "[]" "'' deletes files''"] d
      parse_assessment_rating [of "''10''" "[]" "'' wipes the disk''"] d10
      parse_assessment_rating [of _ _ _ "''Harmless and safe to run''"] h hk
      parse_assessment_rating [of _ _ _ "''No rating given''"] r rk
      parse_assessment_rating [of _ _ _ "''SAFE [2] only lists files''" "scripted [Inr ''SAFE [2] only lists files''] [] []" world0 "''ls''" node0] g
    by simp
qed

text \<open>
  Claim C2 as stated fails: the score 11 lies outside 1 to 10, and the assessment is not
  rejected. The SAFE pattern matches \<open>SAFE [1\<close>, its closing bracket being optional, so
  the command is flagged safe.
\<close>

theorem score_out_of_range_counterexample:
  "validateWithLLM (scripted [Inr ''SAFE [11] harmless''] [] []) node0 world0 ''rm -rf build'' =
     (Inr (True, ''SAFE [11] harmless''), world0\<lparr>llm_calls := 1\<rparr>)"
  by (simp add: validateWithLLM_def llm_Generate_def scripted_def world0_def parse_assessment_def
                safeRegex_def rating_simps)

subsection \<open>The decision to execute\<close>

text \<open>
  Claim C1, as the code has it. Take a command that is not one of the simulated test
  commands, force approval unset, and a model call that returns an assessment. When the
  assessment is flagged safe and the static list finds no match, \<open>Process\<close> does not write
  the confirmation question and hands the command to \<open>bash\<close>. In every other combination
  it writes the question once and reads a line: on \<open>y\<close> or \<open>yes\<close> (after lowering and
  trimming) it hands the command to \<open>bash\<close>; on any other line it spawns nothing and
  returns with the cancellation text as raw output and final result, routed to the
  formatter.
\<close>

theorem validator_confirmation_policy:
  assumes "\<not> ForceApproval n" and "\<not> isSimulated (Command state)"
    and "Generate e (llm_calls w) (validate_prompt (Command state) (WorkingDirectory state))
           validate_systemPrompt = Inr assessment"
  shows "if parse_assessment assessment \<and> \<not> isDangerousCommand (Command state)
         then asked confirm_question (world_of (Process_body e n w state)) = asked confirm_question w \<and>
              spawned (world_of (Process_body e n w state)) = spawned w @ [Command state]
         else asked confirm_question (world_of (Process_body e n w state)) =
                Suc (asked confirm_question w) \<and>
              (if affirmative (ReadString e (stdin_reads w))
               then spawned (world_of (Process_body e n w state)) = spawned w @ [Command state]
               else spawned (world_of (Process_body e n w state)) = spawned w \<and>
                    stdin_reads (world_of (Process_body e n w state)) = Suc (stdin_reads w) \<and>
                    Process (Suc fuel) e n w state =
                      Some (state\<lparr>RawOutput := cancelled, FinalResult := cancelled,
                                   NextNode := NodeTypeFormatter\<rparr>,
                            world_of (Process_body e n w state)))"
proof -
  let ?n = "n\<lparr>node_WorkingDirectory := WorkingDirectory state\<rparr>"
  let ?w = "Process_announce ?n w state"
  let ?auto = "parse_assessment assessment \<and> \<not> isDangerousCommand (Command state)"
  have "\<not> ForceApproval ?n" using assms(1) by simp
  moreover have "Generate e (llm_calls ?w) (validate_prompt (Command state) (node_WorkingDirectory ?n))
           validate_systemPrompt = Inr assessment" using assms(3) by simp
  ultimately obtain w' where v: "Process_validate e ?n ?w state =
           (if ?auto then True else affirmative (ReadString e (stdin_reads ?w)), w')"
     and w': "spawned w' = spawned ?w" "llm_calls w' = Suc (llm_calls ?w)"
         "stdin_reads w' = stdin_reads ?w + (if ?auto then 0 else 1)"
         "asked confirm_question w' = asked confirm_question ?w + (if ?auto then 0 else 1)"
    using Process_validate_reply [OF _ assms(2), of ?n e ?w assessment] by blast
  show ?thesis
    using w' Process_execute_real [OF assms(2), of e ?n w']
    by (simp add: Process_body_def Let_def v)
qed

text \<open>
  The theorem at scenario B of the specification: \<open>rm -rf /tmp/x\<close> matches the static
  list, the model rates it DANGEROUS [8], and the operator declines.
\<close>

definition destructive :: State where
  "destructive = validating ''delete the scratch directory'' ''rm -rf /tmp/x''"

definition refusing :: env where
  \<comment> \<open>the model rates DANGEROUS [8] and the operator answers n\<close>
  "refusing = scripted [Inr ''DANGEROUS [8] deletes a directory tree''] [''n'' @ nl] []"

theorem validator_confirmation_policy_witness:
  "\<not> ForceApproval node0 \<and> \<not> isSimulated (Command destructive) \<and>
   asked confirm_question (world_of (Process_body refusing node0 world0 destructive)) = 1 \<and>
   spawned (world_of (Process_body refusing node0 world0 destructive)) = [] \<and>
   stdin_reads (world_of (Process_body refusing node0 world0 destructive)) = 1 \<and>
   Process (Suc 0) refusing node0 world0 destructive =
     Some (destructive\<lparr>RawOutput := cancelled, FinalResult := cancelled,
                       NextNode := NodeTypeFormatter\<rparr>,
           world_of (Process_body refusing node0 world0 destructive))"
proof -
  have f: "\<not> ForceApproval node0" by (simp add: node0_def)
  have s: "\<not> isSimulated (Command destructive)" by code_simp
  have g: "Generate refusing (llm_calls world0)
             (validate_prompt (Command destructive) (WorkingDirectory destructive))
             validate_systemPrompt = Inr ''DANGEROUS [8] deletes a directory tree''"
    by (simp add: refusing_def scripted_def world0_def)
  have p: "\<not> parse_assessment ''DANGEROUS [8] deletes a directory tree''" by code_simp
  have a: "\<not> affirmative (ReadString refusing (stdin_reads world0))" by code_simp
  have z: "asked confirm_question world0 = 0" "spawned world0 = []" "stdin_reads world0 = 0"
    by (simp_all add: world0_def asked_def)
  show ?thesis
    using validator_confirmation_policy [OF f s g, of 0] p a z f s by simp
qed

text \<open>
  Claim C1 as stated fails on a simulated test command. \<open>ls -la > listing.txt\<close>
  contains \<open>ls -la\<close>, so lines 229 to 273 are skipped: the static list matches the
  redirection, force approval is unset, the model is not consulted and would rate the
  command DANGEROUS, and the operator, who would decline, is not asked. The only
  output is the announcement of the command, and no line is read.
\<close>

definition overwriting :: State where
  "overwriting = validating ''save the listing'' ''ls -la > listing.txt''"

theorem simulated_command_counterexample:
  "\<not> ForceApproval node0 \<and> isDangerousCommand (Command overwriting) \<and>
   Process (Suc 0) refusing node0 world0 overwriting =
     Some (simulated overwriting ls_output,
           Printf world0 (nl @ ''Command: '' @ boldGreen @ ''ls -la > listing.txt'' @ reset @ nl @ nl)) \<and>
   asked confirm_question
     (Printf world0 (nl @ ''Command: '' @ boldGreen @ ''ls -la > listing.txt'' @ reset @ nl @ nl)) = 0 \<and>
   stdin_reads
     (Printf world0 (nl @ ''Command: '' @ boldGreen @ ''ls -la > listing.txt'' @ reset @ nl @ nl)) = 0"
proof -
  have d: "isDangerousCommand (Command overwriting)" by code_simp
  have s: "isSimulated (Command overwriting)" by code_simp
  have l: "Contains (Command overwriting) ''ls -la''" by code_simp
  have c: "Command overwriting = ''ls -la > listing.txt''" by (simp add: overwriting_def validating_def)
  have "Process_validate refusing (node0\<lparr>node_WorkingDirectory := WorkingDirectory overwriting\<rparr>)
          (Process_announce (node0\<lparr>node_WorkingDirectory := WorkingDirectory overwriting\<rparr>) world0 overwriting)
          overwriting =
        (True, Printf world0 (nl @ ''Command: '' @ boldGreen @ ''ls -la > listing.txt'' @ reset @ nl @ nl))"
    using s by (simp add: Process_validate_def Process_announce_def node0_def c)
  then have "Process_body refusing node0 world0 overwriting =
        Return (simulated overwriting ls_output)
          (Printf world0 (nl @ ''Command: '' @ boldGreen @ ''ls -la > listing.txt'' @ reset @ nl @ nl))"
    using l by (simp add: Process_approved Process_execute_def node0_def)
  then show ?thesis
    using d by (simp add: node0_def world0_def asked_def question_simps)
qed

subsection \<open>A failed safety check\<close>

definition validation_warning :: "string \<Rightarrow> string" where
  \<comment> \<open>the text of line 239 for the error of the model call\<close>
  "validation_warning err =
     boldYellow @ ''Warning: Command validation failed: '' @ ''validation LLM error: '' @ err @
     reset @ nl"

text \<open>
  Claim C10. When the model call of the safety check fails, for a command that is neither
  simulated nor force-approved, lines 229 to 273 write the warning, read no line from
  standard input and let control reach the execution; \<open>Process\<close> writes no confirmation
  question and hands the command to \<open>bash\<close>. Nothing in the statement depends on the
  static list: a match only adds its two lines of output before the model call.
\<close>

theorem failed_check_executes:
  assumes "\<not> ForceApproval n" and "\<not> isSimulated (Command state)"
    and "Generate e (llm_calls w) (validate_prompt (Command state) (WorkingDirectory state))
           validate_systemPrompt = Inl err"
  shows "fst (Process_validate e (n\<lparr>node_WorkingDirectory := WorkingDirectory state\<rparr>)
                (Process_announce (n\<lparr>node_WorkingDirectory := WorkingDirectory state\<rparr>) w state) state) \<and>
         stdin_reads (snd (Process_validate e (n\<lparr>node_WorkingDirectory := WorkingDirectory state\<rparr>)
                (Process_announce (n\<lparr>node_WorkingDirectory := WorkingDirectory state\<rparr>) w state) state))
           = stdin_reads w \<and>
         last (stdout (snd (Process_validate e (n\<lparr>node_WorkingDirectory := WorkingDirectory state\<rparr>)
                (Process_announce (n\<lparr>node_WorkingDirectory := WorkingDirectory state\<rparr>) w state) state)))
           = validation_warning err \<and>
         asked confirm_question (world_of (Process_body e n w state)) = asked confirm_question w \<and>
         spawned (world_of (Process_body e n w state)) = spawned w @ [Command state]"
proof -
  let ?n = "n\<lparr>node_WorkingDirectory := WorkingDirectory state\<rparr>"
  let ?w = "Process_announce ?n w state"
  let ?d = "if isDangerousCommand (Command state)
            then Printf (Printf ?w (boldRed @ ''Potentially dangerous command detected!'' @ reset @ nl))
                   (boldYellow @
                    ''This command contains operations that might modify system files or settings.'' @
                    reset @ nl)
            else ?w"
  have g: "Generate e (llm_calls ?d) (validate_prompt (Command state) (node_WorkingDirectory ?n))
             validate_systemPrompt = Inl err"
    using assms(3) by simp
  have v: "Process_validate e ?n ?w state =
             (True, Printf (?d\<lparr>llm_calls := Suc (llm_calls ?d)\<rparr>) (validation_warning err))"
    using assms(1,2) validateWithLLM_error [OF g]
    by (simp add: Process_validate_def Let_def validation_warning_def)
  have a: "asked confirm_question (Printf (?d\<lparr>llm_calls := Suc (llm_calls ?d)\<rparr>) (validation_warning err))
             = asked confirm_question w"
    by (simp add: validation_warning_def question_simps)
  show ?thesis
    using Process_execute_real [OF assms(2), of e ?n "Printf (?d\<lparr>llm_calls := Suc (llm_calls ?d)\<rparr>) (validation_warning err)"] a
    by (simp add: v Process_approved [OF v])
qed

definition unreachable_model :: env where
  \<comment> \<open>the gateway fails; the command would succeed; the operator would decline\<close>
  "unreachable_model =
     scripted [Inl ''connection refused''] [''n'' @ nl] [(''removed'' @ nl, None)]"

theorem failed_check_executes_witness:
  "isDangerousCommand (Command destructive) \<and>
   asked confirm_question (world_of (Process_body unreachable_model node0 world0 destructive)) = 0 \<and>
   spawned (world_of (Process_body unreachable_model node0 world0 destructive)) = [''rm -rf /tmp/x''] \<and>
   last (stdout (snd (Process_validate unreachable_model
           (node0\<lparr>node_WorkingDirectory := WorkingDirectory destructive\<rparr>)
           (Process_announce (node0\<lparr>node_WorkingDirectory := WorkingDirectory destructive\<rparr>) world0 destructive)
           destructive))) = validation_warning ''connection refused''"
proof -
  have f: "\<not> ForceApproval node0" by (simp add: node0_def)
  have s: "\<not> isSimulated (Command destructive)" by code_simp
  have d: "isDangerousCommand (Command destructive)" by code_simp
  have g: "Generate unreachable_model (llm_calls world0)
             (validate_prompt (Command destructive) (WorkingDirectory destructive))
             validate_systemPrompt = Inl ''connection refused''"
    by (simp add: unreachable_model_def scripted_def world0_def)
  have z: "asked confirm_question world0 = 0" "spawned world0 = []"
    by (simp_all add: world0_def asked_def)
  have c: "Command destructive = ''rm -rf /tmp/x''" by (simp add: destructive_def validating_def)
  show ?thesis
    using failed_check_executes [OF f s g] d z c by simp
qed

subsection \<open>The simulated listing\<close>

lemma Process_validate_skipped:
  "isSimulated (Command state) \<or> ForceApproval n \<Longrightarrow>
   \<exists>wv. Process_validate e n w state = (True, wv) \<and> llm_calls wv = llm_calls w \<and>
        stdin_reads wv = stdin_reads w \<and> spawned wv = spawned w \<and>
        asked confirm_question wv = asked confirm_question w"
  by (auto simp: Process_validate_def question_simps)

text \<open>
  Claim C7, as the code has it. A command that contains \<open>ls -la\<close> is a simulated test
  command: whatever the model would answer and whether or not force approval is set,
  \<open>Process\<close> returns at its first call, without a model call, without reading a line and
  without spawning anything. The raw output is the listing built into the source, the
  final result is that listing after the line \<open>Command output:\<close>, and the next node is the
  formatter.
\<close>

theorem list_files_is_simulated:
  assumes "Contains (Command state) ''ls -la''"
  shows "Process (Suc fuel) e n w state =
           Some (state\<lparr>RawOutput := ls_output, FinalResult := ''Command output:'' @ nl @ ls_output,
                        NextNode := NodeTypeFormatter\<rparr>,
                 world_of (Process_body e n w state)) \<and>
         llm_calls (world_of (Process_body e n w state)) = llm_calls w \<and>
         stdin_reads (world_of (Process_body e n w state)) = stdin_reads w \<and>
         spawned (world_of (Process_body e n w state)) = spawned w \<and>
         asked confirm_question (world_of (Process_body e n w state)) = asked confirm_question w"
proof -
  from assms have s: "isSimulated (Command state)"
    by (simp add: isSimulated_def simulatedCommands_def)
  let ?n = "n\<lparr>node_WorkingDirectory := WorkingDirectory state\<rparr>"
  let ?w = "Process_announce ?n w state"
  obtain wv where v: "Process_validate e ?n ?w state = (True, wv)"
    and wv: "llm_calls wv = llm_calls w" "stdin_reads wv = stdin_reads w" "spawned wv = spawned w"
            "asked confirm_question wv = asked confirm_question w"
    using Process_validate_skipped [of state ?n e ?w] s by auto
  show ?thesis
    using assms wv
    by (simp add: Process_approved [OF v] Process_execute_def simulated_def Let_def question_simps)
qed

definition listing :: State where
  "listing = validating ''list files'' ''ls -la''"

definition rating_safe :: env where
  \<comment> \<open>the model rates SAFE [2]; the real command would print two file names\<close>
  "rating_safe =
     scripted [Inr ''SAFE [2] only lists files''] [] [(''a.txt'' @ nl @ ''b.txt'' @ nl, None)]"

theorem list_files_is_simulated_witness:
  "Contains (Command listing) ''ls -la'' \<and>
   Process (Suc 0) rating_safe node0 world0 listing =
     Some (listing\<lparr>RawOutput := ls_output, FinalResult := ''Command output:'' @ nl @ ls_output,
                    NextNode := NodeTypeFormatter\<rparr>,
           world_of (Process_body rating_safe node0 world0 listing)) \<and>
   llm_calls (world_of (Process_body rating_safe node0 world0 listing)) = 0 \<and>
   spawned (world_of (Process_body rating_safe node0 world0 listing)) = []"
proof -
  have c: "Contains (Command listing) ''ls -la''" by code_simp
  show ?thesis
    using list_files_is_simulated [OF c, of 0 rating_safe node0 world0] c
    by (simp add: world0_def)
qed

text \<open>
  Claim C7 as stated fails. For \<open>ls -la\<close> the command is not executed: nothing is spawned,
  and the final result is not the output the command has in that world. It is not the
  built-in listing either, which is the raw output: the final result carries the line
  \<open>Command output:\<close> before it.
\<close>

theorem list_files_counterexample:
  "Process (Suc 0) rating_safe node0 world0 listing =
     Some (simulated listing ls_output,
           Printf world0 (nl @ ''Command: '' @ boldGreen @ ''ls -la'' @ reset @ nl @ nl)) \<and>
   spawned (Printf world0 (nl @ ''Command: '' @ boldGreen @ ''ls -la'' @ reset @ nl @ nl)) = [] \<and>
   FinalResult (simulated listing ls_output) \<noteq> fst (CombinedOutput rating_safe 0 ''ls -la'') \<and>
   FinalResult (simulated listing ls_output) \<noteq> ls_output \<and>
   RawOutput (simulated listing ls_output) = ls_output"
proof -
  have s: "isSimulated (Command listing)" by code_simp
  have l: "Contains (Command listing) ''ls -la''" by code_simp
  have c: "Command listing = ''ls -la''" by (simp add: listing_def validating_def)
  have "Process_validate rating_safe (node0\<lparr>node_WorkingDirectory := WorkingDirectory listing\<rparr>)
          (Process_announce (node0\<lparr>node_WorkingDirectory := WorkingDirectory listing\<rparr>) world0 listing)
          listing =
        (True, Printf world0 (nl @ ''Command: '' @ boldGreen @ ''ls -la'' @ reset @ nl @ nl))"
    using s by (simp add: Process_validate_def Process_announce_def node0_def c)
  then have "Process_body rating_safe node0 world0 listing =
        Return (simulated listing ls_output)
          (Printf world0 (nl @ ''Command: '' @ boldGreen @ ''ls -la'' @ reset @ nl @ nl))"
    using l by (simp add: Process_approved Process_execute_def node0_def)
  then show ?thesis
    by (simp add: world0_def simulated_def rating_safe_def scripted_def ls_output_def nl_def)
qed

subsection \<open>The retry after a failed command\<close>

lemma TrimLeft_fix: "leading_space s = 0 \<Longrightarrow> TrimLeft s = s"
  by (subst TrimLeft.simps) simp

lemma TrimRight_fix: "trailing_space s = 0 \<Longrightarrow> TrimRight s = s"
  by (subst TrimRight.simps) simp

lemma TrimSpace_Nil [simp]: "TrimSpace [] = []"
  by (simp add: TrimSpace_def TrimLeft_fix TrimRight_fix leading_space_def trailing_space_def
                space_runes_def)

lemma Process_failure_useless:
  assumes "Generate e (llm_calls w)
             (suggest_prompt (Input state) (WorkingDirectory state) (Command state)
                (errorMessage_of err out))
             suggest_systemPrompt = Inr suggestion"
    and "TrimSpace suggestion = [] \<or> TrimSpace suggestion = Command state"
  shows "\<exists>w'. Process_failure e n w state out err =
           Return (state\<lparr>RawOutput := errorMessage_of err out,
                          FinalResult := errorMessage_of err out,
                          NextNode := NodeTypeFormatter\<rparr>) w' \<and>
         spawned w' = spawned w \<and> stdin_reads w' = stdin_reads w \<and>
         llm_calls w' = Suc (llm_calls w)"
  using assms
  by (cases "node_Verbose n")
     (auto simp: Process_failure_def suggestAlternativeCommand_def llm_Generate_def Let_def)

lemma Process_failure_useful:
  assumes "Generate e (llm_calls w)
             (suggest_prompt (Input state) (WorkingDirectory state) (Command state)
                (errorMessage_of err out))
             suggest_systemPrompt = Inr suggestion"
    and "TrimSpace suggestion \<noteq> []" and "TrimSpace suggestion \<noteq> Command state"
  shows "\<exists>w'. Process_failure e n w state out err =
           (if affirmative (ReadString e (stdin_reads w))
            then Recurse (state\<lparr>RawOutput := errorMessage_of err out @ nl @ nl @
                                    ''Alternative command suggestion: '' @ TrimSpace suggestion,
                                  Command := TrimSpace suggestion\<rparr>) w'
            else Return (state\<lparr>RawOutput := errorMessage_of err out @ nl @ nl @
                                    ''Alternative command suggestion: '' @ TrimSpace suggestion,
                                 FinalResult := errorMessage_of err out @ nl @ nl @
                                    ''Alternative command suggestion: '' @ TrimSpace suggestion,
                                 NextNode := NodeTypeFormatter\<rparr>) w') \<and>
         spawned w' = spawned w \<and> stdin_reads w' = Suc (stdin_reads w) \<and>
         llm_calls w' = Suc (llm_calls w) \<and>
         asked confirm_question w' = asked confirm_question w"
  using assms
  by (cases "node_Verbose n")
     (auto simp: Process_failure_def suggestAlternativeCommand_def llm_Generate_def Let_def
                 reader_ReadString_def question_simps)

lemma Process_execute_failed:
  assumes "\<not> isSimulated (Command state)"
    and "CombinedOutput e (length (spawned w)) (Command state) = (output, Some err)"
  shows "Process_execute e n w state =
           Process_failure e n
             ((if node_Verbose n then Printf w (''Executing command...'' @ nl) else w)
                \<lparr>spawned := spawned w @ [Command state]\<rparr>) state output err"
  using assms(2)
  by (simp add: Process_execute_def Let_def not_simulated [OF assms(1)] cmd_CombinedOutput_def)

text \<open>
  Claim C4. The command has been approved and \<open>bash\<close> reports a failure. Every command
  the validator receives is a trimmed model reply (\<open>bash.go\<close> line 70, and line 189 for a
  retried command), so the command is its own \<open>TrimSpace\<close>. If the model then suggests
  the empty string or the failed command itself, \<open>Process\<close> returns at once with the text
  of the failure as raw output and final result, routed to the formatter: the command
  was spawned once, no alternative was spawned and no line was read after the failure.
\<close>

theorem useless_suggestion_ends_retry:
  assumes approved:
      "Process_validate e (n\<lparr>node_WorkingDirectory := WorkingDirectory state\<rparr>)
         (Process_announce (n\<lparr>node_WorkingDirectory := WorkingDirectory state\<rparr>) w state) state = (True, wv)"
    and real: "\<not> isSimulated (Command state)"
    and failed: "CombinedOutput e (length (spawned wv)) (Command state) = (output, Some err)"
    and reply: "Generate e (llm_calls wv)
                  (suggest_prompt (Input state) (WorkingDirectory state) (Command state)
                     (errorMessage_of err output))
                  suggest_systemPrompt = Inr suggestion"
    and useless: "suggestion = [] \<or> suggestion = Command state"
    and trimmed: "TrimSpace (Command state) = Command state"
  shows "Process (Suc fuel) e n w state =
           Some (state\<lparr>RawOutput := errorMessage_of err output,
                        FinalResult := errorMessage_of err output,
                        NextNode := NodeTypeFormatter\<rparr>,
                 world_of (Process_body e n w state)) \<and>
         spawned (world_of (Process_body e n w state)) = spawned wv @ [Command state] \<and>
         stdin_reads (world_of (Process_body e n w state)) = stdin_reads wv \<and>
         llm_calls (world_of (Process_body e n w state)) = Suc (llm_calls wv)"
proof -
  let ?n = "n\<lparr>node_WorkingDirectory := WorkingDirectory state\<rparr>"
  let ?w1 = "(if node_Verbose ?n then Printf wv (''Executing command...'' @ nl) else wv)
               \<lparr>spawned := spawned wv @ [Command state]\<rparr>"
  have b: "Process_body e n w state = Process_failure e ?n ?w1 state output err"
    by (simp add: Process_approved [OF approved] Process_execute_failed [OF real failed])
  have g: "Generate e (llm_calls ?w1)
          (suggest_prompt (Input state) (WorkingDirectory state) (Command state)
             (errorMessage_of err output))
          suggest_systemPrompt = Inr suggestion"
    using reply by simp
  have u: "TrimSpace suggestion = [] \<or> TrimSpace suggestion = Command state"
    using useless trimmed by auto
  from Process_failure_useless [OF g u, of ?n] b show ?thesis
    by auto
qed


definition mistyped :: State where
  "mistyped = validating ''list files'' ''lss''"

definition not_found :: "string \<Rightarrow> string \<times> exec_error option" where
  "not_found command =
     (''bash: line 1: '' @ command @ '': command not found'' @ nl, Some (ExitError ''exit status 127'' 127))"

definition repeating :: env where
  \<comment> \<open>the model rates the command SAFE [1] and, after its failure, suggests it again\<close>
  "repeating = scripted [Inr ''SAFE [1] lists files'', Inr ''lss''] [''y'' @ nl] [not_found ''lss'']"

theorem useless_suggestion_ends_retry_witness:
  "Process (Suc 0) repeating node0 world0 mistyped =
     Some (mistyped\<lparr>RawOutput := errorMessage_of (ExitError ''exit status 127'' 127)
                                    (''bash: line 1: lss: command not found'' @ nl),
                     FinalResult := errorMessage_of (ExitError ''exit status 127'' 127)
                                    (''bash: line 1: lss: command not found'' @ nl),
                     NextNode := NodeTypeFormatter\<rparr>,
           world_of (Process_body repeating node0 world0 mistyped)) \<and>
   spawned (world_of (Process_body repeating node0 world0 mistyped)) = [''lss''] \<and>
   stdin_reads (world_of (Process_body repeating node0 world0 mistyped)) = 0"
proof -
  let ?n = "node0\<lparr>node_WorkingDirectory := WorkingDirectory mistyped\<rparr>"
  let ?w = "Process_announce ?n world0 mistyped"
  have c: "Command mistyped = ''lss''" by (simp add: mistyped_def validating_def)
  have f: "\<not> ForceApproval ?n" by (simp add: node0_def)
  have s: "\<not> isSimulated (Command mistyped)" by code_simp
  have d: "\<not> isDangerousCommand (Command mistyped)" by code_simp
  have p: "parse_assessment ''SAFE [1] lists files''" by code_simp
  have t: "TrimSpace (Command mistyped) = Command mistyped" by code_simp
  have g: "Generate repeating (llm_calls ?w) (validate_prompt (Command mistyped) (node_WorkingDirectory ?n))
             validate_systemPrompt = Inr ''SAFE [1] lists files''"
    by (simp add: repeating_def scripted_def world0_def)
  from Process_validate_reply [OF f s g] p d
  obtain wv where v: "Process_validate repeating ?n ?w mistyped = (True, wv)"
    and wv: "spawned wv = []" "llm_calls wv = 1" "stdin_reads wv = 0"
    by (auto simp: world0_def)
  have x: "CombinedOutput repeating (length (spawned wv)) (Command mistyped) =
             (''bash: line 1: lss: command not found'' @ nl, Some (ExitError ''exit status 127'' 127))"
    by (simp add: wv repeating_def scripted_def not_found_def c)
  have r: "Generate repeating (llm_calls wv)
             (suggest_prompt (Input mistyped) (WorkingDirectory mistyped) (Command mistyped)
                (errorMessage_of (ExitError ''exit status 127'' 127)
                   (''bash: line 1: lss: command not found'' @ nl)))
             suggest_systemPrompt = Inr ''lss''"
    by (simp add: wv repeating_def scripted_def)
  show ?thesis
    using useless_suggestion_ends_retry [OF v s x r _ t, of 0] wv c by simp
qed

text \<open>
  Claim C5. The command has been approved, \<open>bash\<close> reports a failure, and the model
  suggests a command that, trimmed, is neither empty nor the failed command. \<open>Process\<close>
  then reads one line. On \<open>y\<close> or \<open>yes\<close> the suggestion becomes the command of the state
  and \<open>Process\<close> calls itself on that state: the call is the whole procedure, with the
  static list, the model check and the retry of a renewed failure (one unit of fuel
  is one such call). On any other line \<open>Process\<close> returns: raw output and final result
  are the text of the original failure followed by the line that names the suggestion.
\<close>

theorem accepted_suggestion_reruns:
  assumes approved:
      "Process_validate e (n\<lparr>node_WorkingDirectory := WorkingDirectory state\<rparr>)
         (Process_announce (n\<lparr>node_WorkingDirectory := WorkingDirectory state\<rparr>) w state) state = (True, wv)"
    and real: "\<not> isSimulated (Command state)"
    and failed: "CombinedOutput e (length (spawned wv)) (Command state) = (output, Some err)"
    and reply: "Generate e (llm_calls wv)
                  (suggest_prompt (Input state) (WorkingDirectory state) (Command state)
                     (errorMessage_of err output))
                  suggest_systemPrompt = Inr suggestion"
    and useful: "TrimSpace suggestion \<noteq> []" "TrimSpace suggestion \<noteq> Command state"
  shows "(if affirmative (ReadString e (stdin_reads wv))
          then Process (Suc fuel) e n w state =
                 Process fuel e n (world_of (Process_body e n w state))
                   (state\<lparr>RawOutput := errorMessage_of err output @ nl @ nl @
                              ''Alternative command suggestion: '' @ TrimSpace suggestion,
                           Command := TrimSpace suggestion\<rparr>)
          else Process (Suc fuel) e n w state =
                 Some (state\<lparr>RawOutput := errorMessage_of err output @ nl @ nl @
                                 ''Alternative command suggestion: '' @ TrimSpace suggestion,
                              FinalResult := errorMessage_of err output @ nl @ nl @
                                 ''Alternative command suggestion: '' @ TrimSpace suggestion,
                              NextNode := NodeTypeFormatter\<rparr>,
                       world_of (Process_body e n w state))) \<and>
         spawned (world_of (Process_body e n w state)) = spawned wv @ [Command state] \<and>
         stdin_reads (world_of (Process_body e n w state)) = Suc (stdin_reads wv)"
proof -
  let ?n = "n\<lparr>node_WorkingDirectory := WorkingDirectory state\<rparr>"
  let ?w1 = "(if node_Verbose ?n then Printf wv (''Executing command...'' @ nl) else wv)
               \<lparr>spawned := spawned wv @ [Command state]\<rparr>"
  have b: "Process_body e n w state = Process_failure e ?n ?w1 state output err"
    by (simp add: Process_approved [OF approved] Process_execute_failed [OF real failed])
  have g: "Generate e (llm_calls ?w1)
          (suggest_prompt (Input state) (WorkingDirectory state) (Command state)
             (errorMessage_of err output))
          suggest_systemPrompt = Inr suggestion"
    using reply by simp
  from Process_failure_useful [OF g useful, of ?n] b show ?thesis
    by auto
qed

definition persistent :: env where
  \<comment> \<open>two commands in a row are not found; the operator accepts both suggestions\<close>
  "persistent =
     scripted [Inr ''SAFE [1] lists files'', Inr ''lsx'', Inr ''SAFE [1] lists files'', Inr '' ls '',
               Inr ''SAFE [1] lists files'']
       [''y'' @ nl, ''YES'' @ nl]
       [not_found ''lss'', not_found ''lsx'', (''a.txt'' @ nl, None)]"

theorem accepted_suggestion_reruns_witness:
  "map_option (\<lambda>r. (Command (fst r), FinalResult (fst r), spawned (snd r), stdin_reads (snd r)))
     (Process (Suc (Suc (Suc 0))) persistent node0 world0 mistyped) =
   Some (''ls'', ''Command output:'' @ nl @ ''a.txt'' @ nl, [''lss'', ''lsx'', ''ls''], 2) \<and>
   spawned (world_of (Process_body persistent node0 world0 mistyped)) = [''lss'']"
proof -
  let ?n = "node0\<lparr>node_WorkingDirectory := WorkingDirectory mistyped\<rparr>"
  let ?w = "Process_announce ?n world0 mistyped"
  let ?m = "errorMessage_of (ExitError ''exit status 127'' 127) (''bash: line 1: lss: command not found'' @ nl)"
  have c: "Command mistyped = ''lss''" by (simp add: mistyped_def validating_def)
  have f: "\<not> ForceApproval ?n" by (simp add: node0_def)
  have s: "\<not> isSimulated (Command mistyped)" by code_simp
  have d: "\<not> isDangerousCommand (Command mistyped)" by code_simp
  have p: "parse_assessment ''SAFE [1] lists files''" by code_simp
  have t: "TrimSpace ''lsx'' = ''lsx''" by code_simp
  have g: "Generate persistent (llm_calls ?w) (validate_prompt (Command mistyped) (node_WorkingDirectory ?n))
             validate_systemPrompt = Inr ''SAFE [1] lists files''"
    by (simp add: persistent_def scripted_def world0_def)
  from Process_validate_reply [OF f s g] p d
  obtain wv where v: "Process_validate persistent ?n ?w mistyped = (True, wv)"
    and wv: "spawned wv = []" "llm_calls wv = 1" "stdin_reads wv = 0"
    by (auto simp: world0_def)
  have x: "CombinedOutput persistent (length (spawned wv)) (Command mistyped) =
             (''bash: line 1: lss: command not found'' @ nl, Some (ExitError ''exit status 127'' 127))"
    by (simp add: wv persistent_def scripted_def not_found_def c)
  have r: "Generate persistent (llm_calls wv)
             (suggest_prompt (Input mistyped) (WorkingDirectory mistyped) (Command mistyped) ?m)
             suggest_systemPrompt = Inr ''lsx''"
    by (simp add: wv persistent_def scripted_def)
  have a: "affirmative (ReadString persistent (stdin_reads wv))"
    unfolding wv by code_simp
  have rest: "map_option (\<lambda>r. (Command (fst r), FinalResult (fst r), spawned (snd r), stdin_reads (snd r)))
     (Process (Suc (Suc 0)) persistent node0 (world_of (Process_body persistent node0 world0 mistyped))
        (mistyped\<lparr>RawOutput := ?m @ nl @ nl @ ''Alternative command suggestion: '' @ ''lsx'',
                  Command := ''lsx''\<rparr>)) =
     Some (''ls'', ''Command output:'' @ nl @ ''a.txt'' @ nl, [''lss'', ''lsx'', ''ls''], 2)"
    by code_simp
  show ?thesis
    using accepted_suggestion_reruns [OF v s x r, of "Suc (Suc 0)"] a t c wv rest by simp
qed

end
